theory Spec2Isabelle
  imports Main "HOL-Library.Word"
begin

section \<open>The video encoder interface of webrtc/api/video_codecs/video_encoder.h\<close>

text \<open>
  The header declares two classes: \<open>EncodedImageCallback\<close> with its nested
  \<open>Result\<close> struct, and \<open>VideoEncoder\<close> with the nested structs
  \<open>QpThresholds\<close> and \<open>ScalingSettings\<close> and a handful of virtual methods that
  have a default body. The embedding follows the header: structs are records, their
  constructors are functions returning the record, the enum is a datatype, the fixed-width
  integers are words, and every virtual method with a body is a function on an explicit
  encoder state.
\<close>

subsection \<open>Machine integers\<close>

text \<open>
  \<open>uint32_t\<close> is a 32-bit word read with \<open>unat\<close>. \<open>int32_t\<close> and C++ \<open>int\<close>
  (32 bits, two's complement, on the platforms the library targets) are 32-bit words read
  with \<open>sint\<close>: a status is negative when \<open>sint r < 0\<close>, and \<open>low <= high\<close> on
  two \<open>int\<close> values is \<open>sint low \<le> sint high\<close>.
\<close>

type_synonym uint32_t = "32 word"
type_synonym int32_t = "32 word"
type_synonym c_int = "32 word"

subsection \<open>EncodedImageCallback::Result\<close>

datatype Error = OK | ERROR_SEND_FAILED

record Result =
  error :: Error
  frame_id :: uint32_t
  drop_next_frame :: bool

text \<open>
  \<^verbatim>\<open>Result(Error error) : error(error) {}\<close>
  The members without an entry in the initialiser list take their default member
  initialisers: \<open>frame_id = 0\<close> and \<open>drop_next_frame = false\<close>.
\<close>

definition Result_ctor1 :: "Error \<Rightarrow> Result" where
  "Result_ctor1 e = \<lparr>error = e, frame_id = 0, drop_next_frame = False\<rparr>"

text \<open>
  \<^verbatim>\<open>Result(Error error, uint32_t frame_id) : error(error), frame_id(frame_id) {}\<close>
\<close>

definition Result_ctor2 :: "Error \<Rightarrow> uint32_t \<Rightarrow> Result" where
  "Result_ctor2 e fid = \<lparr>error = e, frame_id = fid, drop_next_frame = False\<rparr>"

subsection \<open>VideoEncoder::QpThresholds and VideoEncoder::ScalingSettings\<close>

record QpThresholds =
  low :: c_int
  high :: c_int

text \<open>\<^verbatim>\<open>QpThresholds(int l, int h) : low(l), high(h) {}\<close>\<close>

definition QpThresholds_ctor2 :: "c_int \<Rightarrow> c_int \<Rightarrow> QpThresholds" where
  "QpThresholds_ctor2 l h = \<lparr>low = l, high = h\<rparr>"

text \<open>\<^verbatim>\<open>QpThresholds() : low(-1), high(-1) {}\<close>\<close>

definition QpThresholds_ctor0 :: QpThresholds where
  "QpThresholds_ctor0 = \<lparr>low = - 1, high = - 1\<rparr>"

text \<open>
  \<open>rtc::Optional<QpThresholds>\<close> is an \<open>option\<close>: a default-constructed optional
  holds no value, \<open>rtc::Optional<T>(v)\<close> holds \<open>v\<close>.
\<close>

record ScalingSettings =
  enabled :: bool
  thresholds :: "QpThresholds option"

text \<open>
  \<^verbatim>\<open>ScalingSettings(bool on, int low, int high)
      : enabled(on),
        thresholds(rtc::Optional<QpThresholds>(QpThresholds(low, high))) {}\<close>
\<close>

definition ScalingSettings_ctor3 :: "bool \<Rightarrow> c_int \<Rightarrow> c_int \<Rightarrow> ScalingSettings" where
  "ScalingSettings_ctor3 on l h =
     \<lparr>enabled = on, thresholds = Some (QpThresholds_ctor2 l h)\<rparr>"

text \<open>\<^verbatim>\<open>explicit ScalingSettings(bool on) : enabled(on) {}\<close>\<close>

definition ScalingSettings_ctor1 :: "bool \<Rightarrow> ScalingSettings" where
  "ScalingSettings_ctor1 on = \<lparr>enabled = on, thresholds = None\<rparr>"

subsection \<open>What the header takes from other headers\<close>

text \<open>
  Modelled from the spec: \<open>BitrateAllocation\<close> and its member \<open>get_sum_kbps\<close>,
  declared in webrtc/common_types.h. The spec describes the rate allocation as a
  per-layer bitrate breakdown plus a derived total, where the total equals the sum of
  all layer allocations. The allocation is the list of its layer bitrates, layer 0 first;
  the total is their sum in \<open>uint32_t\<close> arithmetic, the type of the \<open>bitrate\<close>
  parameter it is passed to.
\<close>

type_synonym BitrateAllocation = "uint32_t list"

definition get_sum_kbps :: "BitrateAllocation \<Rightarrow> uint32_t" where
  "get_sum_kbps allocation = sum_list allocation"

text \<open>
  Modelled from the spec: the macro \<open>RTC_NOTREACHED()\<close> of webrtc/base/checks.h. The
  spec says of the code that reaches it that it fails loudly in debug builds (an
  assertion-style contract violation) and goes on to return its status in release builds.
  \<open>dcheck_is_on\<close> tells a debug build from a release build; \<open>Some msg\<close> is the
  fatal check failure carrying the message streamed into the macro, \<open>None\<close> lets
  control fall through to the next statement.
\<close>

definition RTC_NOTREACHED :: "bool \<Rightarrow> string \<Rightarrow> string option" where
  "RTC_NOTREACHED dcheck_is_on msg = (if dcheck_is_on then Some msg else None)"

subsection \<open>VideoEncoder: virtual methods with a default body\<close>

text \<open>
  A call either returns a value together with the encoder state it leaves behind, or it
  ends the process in a fatal check failure with a message.
\<close>

datatype 'a outcome = Returns 'a | FatalCheck string

text \<open>
  An implementation is a subclass of \<open>VideoEncoder\<close> with its own member state
  \<open>'s\<close>. For each of the four virtual methods that the header gives a body, the
  subclass either overrides it (\<open>Some\<close> of its own body) or inherits the body of the
  header (\<open>None\<close>). The pure virtual methods have no body in the header and take no part
  in what follows.
\<close>

record 's VideoEncoder =
  SetRates_override ::
    "(uint32_t \<Rightarrow> uint32_t \<Rightarrow> 's \<Rightarrow> (int32_t \<times> 's) outcome) option"
  SetRateAllocation_override ::
    "(BitrateAllocation \<Rightarrow> uint32_t \<Rightarrow> 's \<Rightarrow> (int32_t \<times> 's) outcome) option"
  GetScalingSettings_override ::
    "('s \<Rightarrow> (ScalingSettings \<times> 's) outcome) option"
  SetPeriodicKeyFrames_override ::
    "(bool \<Rightarrow> 's \<Rightarrow> (int32_t \<times> 's) outcome) option"

text \<open>
  \<^verbatim>\<open>virtual int32_t SetRates(uint32_t bitrate, uint32_t framerate) {
    RTC_NOTREACHED() << "SetRate(uint32_t, uint32_t) is deprecated.";
    return -1;
  }\<close>
\<close>

definition VideoEncoder_SetRates ::
  "bool \<Rightarrow> uint32_t \<Rightarrow> uint32_t \<Rightarrow> 's \<Rightarrow> (int32_t \<times> 's) outcome" where
  "VideoEncoder_SetRates dcheck_is_on bitrate framerate s =
     (case RTC_NOTREACHED dcheck_is_on ''SetRate(uint32_t, uint32_t) is deprecated.'' of
        Some msg \<Rightarrow> FatalCheck msg
      | None \<Rightarrow> Returns (- 1, s))"

text \<open>The virtual call \<open>this->SetRates(bitrate, framerate)\<close>.\<close>

definition SetRates ::
  "bool \<Rightarrow> 's VideoEncoder \<Rightarrow> uint32_t \<Rightarrow> uint32_t \<Rightarrow> 's \<Rightarrow> (int32_t \<times> 's) outcome" where
  "SetRates dcheck_is_on this bitrate framerate s =
     (case SetRates_override this of
        Some body \<Rightarrow> body bitrate framerate s
      | None \<Rightarrow> VideoEncoder_SetRates dcheck_is_on bitrate framerate s)"

text \<open>
  \<^verbatim>\<open>virtual int32_t SetRateAllocation(const BitrateAllocation& allocation,
                                    uint32_t framerate) {
    return SetRates(allocation.get_sum_kbps(), framerate);
  }\<close>
  The call of \<open>SetRates\<close> in the body is a virtual call on \<open>this\<close>.
\<close>

definition VideoEncoder_SetRateAllocation ::
  "bool \<Rightarrow> 's VideoEncoder \<Rightarrow> BitrateAllocation \<Rightarrow> uint32_t \<Rightarrow> 's
     \<Rightarrow> (int32_t \<times> 's) outcome" where
  "VideoEncoder_SetRateAllocation dcheck_is_on this allocation framerate s =
     SetRates dcheck_is_on this (get_sum_kbps allocation) framerate s"

text \<open>The virtual call \<open>this->SetRateAllocation(allocation, framerate)\<close>.\<close>

definition SetRateAllocation ::
  "bool \<Rightarrow> 's VideoEncoder \<Rightarrow> BitrateAllocation \<Rightarrow> uint32_t \<Rightarrow> 's
     \<Rightarrow> (int32_t \<times> 's) outcome" where
  "SetRateAllocation dcheck_is_on this allocation framerate s =
     (case SetRateAllocation_override this of
        Some body \<Rightarrow> body allocation framerate s
      | None \<Rightarrow> VideoEncoder_SetRateAllocation dcheck_is_on this allocation framerate s)"

text \<open>
  \<^verbatim>\<open>virtual ScalingSettings GetScalingSettings() const {
    return ScalingSettings(false);
  }\<close>
\<close>

definition VideoEncoder_GetScalingSettings :: "'s \<Rightarrow> (ScalingSettings \<times> 's) outcome" where
  "VideoEncoder_GetScalingSettings s = Returns (ScalingSettings_ctor1 False, s)"

text \<open>The virtual call \<open>this->GetScalingSettings()\<close>.\<close>

definition GetScalingSettings ::
  "'s VideoEncoder \<Rightarrow> 's \<Rightarrow> (ScalingSettings \<times> 's) outcome" where
  "GetScalingSettings this s =
     (case GetScalingSettings_override this of
        Some body \<Rightarrow> body s
      | None \<Rightarrow> VideoEncoder_GetScalingSettings s)"

text \<open>\<^verbatim>\<open>virtual int32_t SetPeriodicKeyFrames(bool enable) { return -1; }\<close>\<close>

definition VideoEncoder_SetPeriodicKeyFrames ::
  "bool \<Rightarrow> 's \<Rightarrow> (int32_t \<times> 's) outcome" where
  "VideoEncoder_SetPeriodicKeyFrames enable s = Returns (- 1, s)"

text \<open>The virtual call \<open>this->SetPeriodicKeyFrames(enable)\<close>.\<close>

definition SetPeriodicKeyFrames ::
  "'s VideoEncoder \<Rightarrow> bool \<Rightarrow> 's \<Rightarrow> (int32_t \<times> 's) outcome" where
  "SetPeriodicKeyFrames this enable s =
     (case SetPeriodicKeyFrames_override this of
        Some body \<Rightarrow> body enable s
      | None \<Rightarrow> VideoEncoder_SetPeriodicKeyFrames enable s)"

subsection \<open>Three sample implementations\<close>

text \<open>
  \<open>PlainEncoder\<close> overrides none of the four methods; it has no member state.
  \<open>RecordingEncoder\<close> overrides \<open>SetRates\<close> only: its state is the list of the
  \<open>(bitrate, framerate)\<close> pairs it has been called with, oldest first, and it returns
  status 0. \<open>RateAwareEncoder\<close> overrides \<open>SetRates\<close> and
  \<open>GetScalingSettings\<close>: its state is the target bitrate it was last given (0 before
  the first call), \<open>SetRates\<close> stores the bitrate and returns status 0, and the
  query, which reads the state and leaves it as it is, reports scaling enabled once the
  stored bitrate is not 0. They are the concrete encoders at which the theorems below are
  instantiated.
\<close>

definition PlainEncoder :: "unit VideoEncoder" where
  "PlainEncoder =
     \<lparr>SetRates_override = None, SetRateAllocation_override = None,
      GetScalingSettings_override = None, SetPeriodicKeyFrames_override = None\<rparr>"

definition RecordingEncoder :: "((uint32_t \<times> uint32_t) list) VideoEncoder" where
  "RecordingEncoder =
     \<lparr>SetRates_override =
        Some (\<lambda>bitrate framerate calls. Returns (0, calls @ [(bitrate, framerate)])),
      SetRateAllocation_override = None,
      GetScalingSettings_override = None, SetPeriodicKeyFrames_override = None\<rparr>"


section \<open>Rate control: the default bodies\<close>

text \<open>The total of an allocation, read as a number: the layer bitrates added up, modulo
  the range of \<open>uint32_t\<close>.\<close>

lemma unat_sum_list_uint32:
  "unat (sum_list (xs :: uint32_t list)) = sum_list (map unat xs) mod 2 ^ 32"
proof (induction xs)
  case Nil
  show ?case by simp
next
  case (Cons x xs)
  have "unat (x + sum_list xs) = (unat x + unat (sum_list xs)) mod 2 ^ 32"
    by (simp add: unat_word_ariths)
  also have "\<dots> = (unat x + sum_list (map unat xs) mod 2 ^ 32) mod 2 ^ 32"
    by (simp only: Cons.IH)
  also have "\<dots> = (unat x + sum_list (map unat xs)) mod 2 ^ 32"
    by (rule mod_add_right_eq)
  finally show ?case by simp
qed

text \<open>
  C1. On an encoder that does not override \<open>SetRateAllocation\<close>, a call of
  \<open>SetRateAllocation(allocation, framerate)\<close> is the virtual call of \<open>SetRates\<close>
  with the total of the allocation as the bitrate and the framerate as given: it has the
  result and leaves the state that this call of \<open>SetRates\<close> has, whichever body
  \<open>SetRates\<close> dispatches to. The total is the sum of the layer bitrates in
  \<open>uint32_t\<close> arithmetic. For the layers 500 and 300 and framerate 30 the call is
  \<open>SetRates(800, 30)\<close>.
\<close>

theorem SetRateAllocation_default_delegates:
  "SetRateAllocation_override this = None \<Longrightarrow>
     SetRateAllocation dcheck_is_on this allocation framerate s
       = SetRates dcheck_is_on this (get_sum_kbps allocation) framerate s
   \<and> unat (get_sum_kbps allocation) = sum_list (map unat allocation) mod 2 ^ 32
   \<and> SetRateAllocation dcheck_is_on this [500, 300] 30 s
       = SetRates dcheck_is_on this 800 30 s"
  by (simp add: SetRateAllocation_def VideoEncoder_SetRateAllocation_def get_sum_kbps_def
      unat_sum_list_uint32)

text \<open>
  At the recording encoder, which inherits \<open>SetRateAllocation\<close>: starting from an
  empty record, the allocation of 500 and 300 at framerate 30 leaves exactly one recorded
  call, \<open>SetRates(800, 30)\<close>.
\<close>

theorem SetRateAllocation_default_delegates_witness:
  "SetRateAllocation_override RecordingEncoder = None
   \<and> SetRateAllocation False RecordingEncoder [500, 300] 30 [] = Returns (0, [(800, 30)])"
proof -
  have h: "SetRateAllocation_override RecordingEncoder = None"
    by (simp add: RecordingEncoder_def)
  have "SetRateAllocation False RecordingEncoder [500, 300] 30 []
          = SetRates False RecordingEncoder (get_sum_kbps [500, 300]) 30 []"
    by (rule SetRateAllocation_default_delegates [OF h, THEN conjunct1])
  also have "\<dots> = Returns (0, [(800, 30)])"
    by (simp add: SetRates_def RecordingEncoder_def get_sum_kbps_def)
  finally show ?thesis using h by simp
qed

text \<open>
  C3. On an encoder that does not override \<open>SetRates\<close>, a call of
  \<open>SetRates(bitrate, framerate)\<close>, for every bitrate and framerate, ends in a fatal
  check failure with the deprecation message in a debug build, and returns the negative
  status \<open>-1\<close> with the state untouched in a release build. In neither build does it
  return a status \<open>r\<close> that is zero or positive.
\<close>

theorem SetRates_base_fails:
  "SetRates_override this = None \<Longrightarrow>
     SetRates True this bitrate framerate s
       = FatalCheck ''SetRate(uint32_t, uint32_t) is deprecated.''
   \<and> SetRates False this bitrate framerate s = Returns (- 1, s)
   \<and> sint (- 1 :: int32_t) < 0
   \<and> (0 \<le> sint r \<longrightarrow> SetRates dcheck_is_on this bitrate framerate s \<noteq> Returns (r, s'))"
  by (auto simp add: SetRates_def VideoEncoder_SetRates_def RTC_NOTREACHED_def)

theorem SetRates_base_fails_witness:
  "SetRates_override PlainEncoder = None
   \<and> SetRates True PlainEncoder 800 30 ()
       = FatalCheck ''SetRate(uint32_t, uint32_t) is deprecated.''
   \<and> SetRates False PlainEncoder 800 30 () = Returns (- 1, ())
   \<and> 0 \<le> sint (0 :: int32_t)
   \<and> SetRates False PlainEncoder 800 30 () \<noteq> Returns (0, ())"
proof -
  have h: "SetRates_override PlainEncoder = None"
    by (simp add: PlainEncoder_def)
  show ?thesis
    using h SetRates_base_fails [OF h, of 800 30 "()" 0 False "()"] by simp
qed

text \<open>
  C8. On an encoder that does not override \<open>SetPeriodicKeyFrames\<close>, a call of
  \<open>SetPeriodicKeyFrames(enable)\<close> returns the negative status \<open>-1\<close> for either
  value of \<open>enable\<close>, and leaves the state as it was.
\<close>

theorem SetPeriodicKeyFrames_default_fails:
  "SetPeriodicKeyFrames_override this = None \<Longrightarrow>
     SetPeriodicKeyFrames this enable s = Returns (- 1, s) \<and> sint (- 1 :: int32_t) < 0"
  by (simp add: SetPeriodicKeyFrames_def VideoEncoder_SetPeriodicKeyFrames_def)

theorem SetPeriodicKeyFrames_default_fails_witness:
  "SetPeriodicKeyFrames_override PlainEncoder = None
   \<and> SetPeriodicKeyFrames PlainEncoder True () = Returns (- 1, ())
   \<and> SetPeriodicKeyFrames PlainEncoder False () = Returns (- 1, ())"
proof -
  have h: "SetPeriodicKeyFrames_override PlainEncoder = None"
    by (simp add: PlainEncoder_def)
  show ?thesis
    using h SetPeriodicKeyFrames_default_fails [OF h, of True "()"]
      SetPeriodicKeyFrames_default_fails [OF h, of False "()"] by simp
qed

section \<open>The scaling query: the default body\<close>

text \<open>
  C6. On an encoder that does not override \<open>GetScalingSettings\<close>, the query returns
  scaling disabled, that is \<open>enabled = false\<close> with no thresholds set, and the
  encoder state after the call is the state before it.
\<close>

theorem GetScalingSettings_default_disabled:
  "GetScalingSettings_override this = None \<Longrightarrow>
     GetScalingSettings this s = Returns (\<lparr>enabled = False, thresholds = None\<rparr>, s)"
  by (simp add: GetScalingSettings_def VideoEncoder_GetScalingSettings_def
      ScalingSettings_ctor1_def)

theorem GetScalingSettings_default_disabled_witness:
  "GetScalingSettings_override RecordingEncoder = None
   \<and> GetScalingSettings RecordingEncoder [(800, 30)]
       = Returns (\<lparr>enabled = False, thresholds = None\<rparr>, [(800, 30)])"
proof -
  have h: "GetScalingSettings_override RecordingEncoder = None"
    by (simp add: RecordingEncoder_def)
  show ?thesis
    using h GetScalingSettings_default_disabled [OF h, of "[(800, 30)]"] by simp
qed




section \<open>The value types\<close>

text \<open>
  C2, as the header has it. The one-argument constructor leaves \<open>frame_id\<close> at its
  default member initialiser, so a \<open>Result\<close> built from \<open>ERROR_SEND_FAILED\<close> alone
  has \<open>frame_id = 0\<close>. The two-argument constructor stores the frame id it is given,
  whatever the error: built from \<open>ERROR_SEND_FAILED\<close> and \<open>fid\<close>, the result has
  \<open>frame_id = fid\<close>.
\<close>

theorem Result_send_failed_frame_id:
  "error (Result_ctor1 ERROR_SEND_FAILED) = ERROR_SEND_FAILED
   \<and> frame_id (Result_ctor1 ERROR_SEND_FAILED) = 0
   \<and> error (Result_ctor2 ERROR_SEND_FAILED fid) = ERROR_SEND_FAILED
   \<and> frame_id (Result_ctor2 ERROR_SEND_FAILED fid) = fid"
  by (simp add: Result_ctor1_def Result_ctor2_def)

text \<open>
  C2 does not hold for every way of constructing: \<open>Result(ERROR_SEND_FAILED, 7)\<close> has
  the error \<open>ERROR_SEND_FAILED\<close> and the frame id 7.
\<close>

theorem Result_send_failed_frame_id_counterexample:
  "error (Result_ctor2 ERROR_SEND_FAILED 7) = ERROR_SEND_FAILED
   \<and> frame_id (Result_ctor2 ERROR_SEND_FAILED 7) \<noteq> 0"
  by (simp add: Result_ctor2_def)

text \<open>
  C9. Both constructors of \<open>EncodedImageCallback::Result\<close> leave
  \<open>drop_next_frame\<close> at its default member initialiser: whatever the error and
  whatever the frame id, a freshly constructed \<open>Result\<close> has
  \<open>drop_next_frame = false\<close>.
\<close>

theorem Result_drop_next_frame_false:
  "drop_next_frame (Result_ctor1 e) = False \<and> drop_next_frame (Result_ctor2 e fid) = False"
  by (simp add: Result_ctor1_def Result_ctor2_def)

text \<open>
  C4. For all \<open>int\<close> values \<open>l\<close> and \<open>h\<close>, \<open>ScalingSettings(true, l, h)\<close> has
  \<open>enabled = true\<close> and its thresholds are present and equal to
  \<open>QpThresholds(l, h)\<close>, whose \<open>low\<close> is \<open>l\<close> and whose \<open>high\<close> is \<open>h\<close>.
  \<open>ScalingSettings(true, 20, 50)\<close> is enabled with the thresholds \<open>(20, 50)\<close>.
\<close>

theorem ScalingSettings_ctor3_roundtrip:
  "enabled (ScalingSettings_ctor3 True l h) = True
   \<and> thresholds (ScalingSettings_ctor3 True l h) = Some (QpThresholds_ctor2 l h)
   \<and> low (QpThresholds_ctor2 l h) = l
   \<and> high (QpThresholds_ctor2 l h) = h
   \<and> ScalingSettings_ctor3 True 20 50
       = \<lparr>enabled = True, thresholds = Some \<lparr>low = 20, high = 50\<rparr>\<rparr>"
  by (simp add: ScalingSettings_ctor3_def QpThresholds_ctor2_def)

text \<open>
  C5, as the header has it. The three-argument constructor stores its two bounds as
  given and compares nothing. When the arguments satisfy \<open>low <= high\<close>, the
  thresholds of the constructed value are set and satisfy \<open>low <= high\<close>.
\<close>

theorem ScalingSettings_ctor3_order:
  "sint l \<le> sint h \<Longrightarrow>
     thresholds (ScalingSettings_ctor3 on l h) = Some (QpThresholds_ctor2 l h)
   \<and> sint (low (QpThresholds_ctor2 l h)) \<le> sint (high (QpThresholds_ctor2 l h))"
  by (simp add: ScalingSettings_ctor3_def QpThresholds_ctor2_def)

theorem ScalingSettings_ctor3_order_witness:
  "sint (20 :: c_int) \<le> sint (50 :: c_int)
   \<and> thresholds (ScalingSettings_ctor3 True 20 50) = Some (QpThresholds_ctor2 20 50)
   \<and> sint (low (QpThresholds_ctor2 20 50)) \<le> sint (high (QpThresholds_ctor2 20 50))"
proof -
  have h: "sint (20 :: c_int) \<le> sint (50 :: c_int)" by simp
  show ?thesis
    using h ScalingSettings_ctor3_order [OF h, of True] by simp
qed

text \<open>
  C5 does not hold for every value the three-argument constructor produces:
  \<open>ScalingSettings(true, 50, 20)\<close> has its thresholds set to \<open>(50, 20)\<close>, which is
  not the \<open>(-1, -1)\<close> of the default \<open>QpThresholds()\<close> and has \<open>low > high\<close>.
\<close>

theorem ScalingSettings_ctor3_order_counterexample:
  "thresholds (ScalingSettings_ctor3 True 50 20) = Some (QpThresholds_ctor2 50 20)
   \<and> QpThresholds_ctor2 50 20 \<noteq> QpThresholds_ctor0
   \<and> \<not> sint (low (QpThresholds_ctor2 50 20)) \<le> sint (high (QpThresholds_ctor2 50 20))"
  by (simp add: ScalingSettings_ctor3_def QpThresholds_ctor2_def QpThresholds_ctor0_def)

text \<open>
  C10. For either value of \<open>on\<close>, \<open>ScalingSettings(on)\<close> has no thresholds at all,
  while \<open>ScalingSettings(on, -1, -1)\<close> has thresholds, set to \<open>(-1, -1)\<close>, the value
  of the default \<open>QpThresholds()\<close>. The two are different states of the optional.
\<close>

theorem ScalingSettings_ctor1_thresholds_absent:
  "thresholds (ScalingSettings_ctor1 on) = None
   \<and> thresholds (ScalingSettings_ctor3 on (- 1) (- 1)) = Some \<lparr>low = - 1, high = - 1\<rparr>
   \<and> thresholds (ScalingSettings_ctor3 on (- 1) (- 1)) = Some QpThresholds_ctor0
   \<and> thresholds (ScalingSettings_ctor1 on) \<noteq> thresholds (ScalingSettings_ctor3 on (- 1) (- 1))"
  by (simp add: ScalingSettings_ctor1_def ScalingSettings_ctor3_def QpThresholds_ctor2_def
      QpThresholds_ctor0_def)

end
